theory Spec2Isabelle
  imports Complex_Main "HOL-Library.Sublist"
begin

section \<open>JavaScript values as the plugin meets them\<close>

text \<open>
  The plugin (\<^verbatim>\<open>src/index.ts\<close>) is TypeScript, but the values it receives from
  \<^verbatim>\<open>JSON.parse\<close> are typed \<^verbatim>\<open>any\<close>: nothing checks at run time that a field
  declared \<^verbatim>\<open>string\<close> holds a string. The model therefore keeps the run-time
  universe of values wherever such a value flows.

  Strings are \<^typ>\<open>string\<close>, one \<^typ>\<open>char\<close> per code unit; code units above
  8 bits are outside the model. A number is an IEEE double, of which only the
  truth value is ever inspected by the code.
\<close>

datatype jsnumber = NaN | Finite real | PosInfinity | NegInfinity

datatype jsvalue =
    JSUndefined
  | JSNull
  | JSBool bool
  | JSNumber jsnumber
  | JSString string
  | JSArray "jsvalue list"
  | JSObject "(string \<times> jsvalue) list"

text \<open>What a failed step throws (or a promise rejects with).\<close>

datatype js_error =
    NetworkError          \<comment> \<open>\<^verbatim>\<open>fetch\<close> rejects: the endpoint is unreachable\<close>
  | HttpError nat         \<comment> \<open>\<^verbatim>\<open>new Error(`HTTP error! status: ${response.status}`)\<close>\<close>
  | BodyError             \<comment> \<open>\<^verbatim>\<open>response.text()\<close> rejects\<close>
  | SyntaxError           \<comment> \<open>\<^verbatim>\<open>JSON.parse\<close> on text that is not JSON\<close>
  | TypeError             \<comment> \<open>property of \<^verbatim>\<open>null\<close>/\<^verbatim>\<open>undefined\<close>, call of a non-function\<close>
  | OracleError           \<comment> \<open>\<^verbatim>\<open>axe.run\<close> rejects\<close>

text \<open>ToBoolean, as used by \<^verbatim>\<open>!x\<close>, \<^verbatim>\<open>x || y\<close> and \<^verbatim>\<open>if (x)\<close>.\<close>

fun truthy :: "jsvalue \<Rightarrow> bool" where
  "truthy JSUndefined = False"
| "truthy JSNull = False"
| "truthy (JSBool b) = b"
| "truthy (JSNumber n) = (n \<noteq> NaN \<and> n \<noteq> Finite 0)"
| "truthy (JSString s) = (s \<noteq> [])"
| "truthy (JSArray xs) = True"
| "truthy (JSObject kvs) = True"

text \<open>\<^verbatim>\<open>a || b\<close>\<close>

definition js_or :: "jsvalue \<Rightarrow> jsvalue \<Rightarrow> jsvalue" where
  "js_or a b = (if truthy a then a else b)"

text \<open>
  \<^verbatim>\<open>v.name\<close> for a property name that no built-in prototype defines (the code
  reads \<^verbatim>\<open>response\<close>, \<^verbatim>\<open>exampleCellContent\<close> and \<^verbatim>\<open>explanation\<close> only): the own
  property of an object, \<^verbatim>\<open>undefined\<close> on any other value, and a TypeError on
  \<^verbatim>\<open>null\<close> and \<^verbatim>\<open>undefined\<close>. An object lists its properties; one that
  \<^verbatim>\<open>JSON.parse\<close> builds has each key once.
\<close>

fun get_property :: "jsvalue \<Rightarrow> string \<Rightarrow> js_error + jsvalue" where
  "get_property JSUndefined k = Inl TypeError"
| "get_property JSNull k = Inl TypeError"
| "get_property (JSObject kvs) k =
     Inr (case map_of kvs k of None \<Rightarrow> JSUndefined | Some v \<Rightarrow> v)"
| "get_property v k = Inr JSUndefined"

definition is_string :: "jsvalue \<Rightarrow> bool" where
  "is_string v = (case v of JSString s \<Rightarrow> True | _ \<Rightarrow> False)"

subsection \<open>String operations\<close>

text \<open>
  \<^verbatim>\<open>s.replace(/pat/, rep)\<close> for a pattern without metacharacters and without
  the \<^verbatim>\<open>g\<close> flag, and a replacement without \<^verbatim>\<open>$\<close>: the leftmost occurrence of
  \<open>pat\<close> is replaced, the rest of the string is kept.
\<close>

fun replace_first :: "string \<Rightarrow> string \<Rightarrow> string \<Rightarrow> string" where
  "replace_first pat rep [] = (if pat = [] then rep else [])"
| "replace_first pat rep (c # cs) =
     (if prefix pat (c # cs) then rep @ drop (length pat) (c # cs)
      else c # replace_first pat rep cs)"

text \<open>
  \<^verbatim>\<open>String.prototype.trim\<close> removes white space and line terminators at both
  ends; within 8-bit code units these are tab, LF, VT, FF, CR, space and the
  no-break space.
\<close>

definition is_js_space :: "char \<Rightarrow> bool" where
  "is_js_space c =
     (c = CHR 0x09 \<or> c = CHR 0x0A \<or> c = CHR 0x0B \<or> c = CHR 0x0C \<or>
      c = CHR 0x0D \<or> c = CHR 0x20 \<or> c = CHR 0xA0)"

definition trim :: "string \<Rightarrow> string" where
  "trim s = rev (dropWhile is_js_space (rev (dropWhile is_js_space s)))"

section \<open>The suggestion backend: \<^verbatim>\<open>getFixSuggestions\<close>\<close>

text \<open>
  The transport and the JSON parser are the browser's; both are parameters of
  the model. A request carries what the code passes to \<^verbatim>\<open>fetch\<close>; the body is the
  object handed to \<^verbatim>\<open>JSON.stringify\<close>.
\<close>

record ollama_body =
  body_model :: string
  body_prompt :: string
  body_stream :: bool

record request =
  req_url :: string
  req_method :: string
  req_content_type :: string
  req_body :: ollama_body

record response =
  status :: nat
  response_text :: "js_error + string"   \<comment> \<open>what \<^verbatim>\<open>await response.text()\<close> gives\<close>

text \<open>\<^verbatim>\<open>response.ok\<close>: the status is in the range 200 to 299.\<close>

definition ok :: "response \<Rightarrow> bool" where
  "ok r = (200 \<le> status r \<and> status r \<le> 299)"

record net =
  fetch :: "request \<Rightarrow> js_error + response"
  JSON_parse :: "string \<Rightarrow> jsvalue option"   \<comment> \<open>\<open>None\<close>: \<^verbatim>\<open>JSON.parse\<close> throws\<close>

definition OLLAMA_API :: string where
  "OLLAMA_API = ''http://localhost:11434/api/generate''"

definition fence_open :: string where
  "fence_open = ''```json'' @ [CHR 0x0A]"

definition fence_close :: string where
  "fence_close = [CHR 0x0A] @ ''```''"

text \<open>
  The inner \<^verbatim>\<open>try\<close> block (lines 110 to 118): read \<^verbatim>\<open>responseObj.response\<close>, strip
  the fence, trim, parse, and take the two fields. \<^verbatim>\<open>.replace\<close> exists on
  strings only; on any other value the call throws.
\<close>

definition parse_suggestion ::
  "(string \<Rightarrow> jsvalue option) \<Rightarrow> jsvalue \<Rightarrow> js_error + (jsvalue \<times> jsvalue)" where
  "parse_suggestion parse responseObj =
     (case get_property responseObj ''response'' of
        Inl e \<Rightarrow> Inl e
      | Inr (JSString s) \<Rightarrow>
          (let rawJSONString =
                 trim (replace_first fence_close [] (replace_first fence_open [] s))
           in case parse rawJSONString of
                None \<Rightarrow> Inl SyntaxError
              | Some result \<Rightarrow>
                  (case get_property result ''exampleCellContent'' of
                     Inl e \<Rightarrow> Inl e
                   | Inr content \<Rightarrow>
                       (case get_property result ''explanation'' of
                          Inl e \<Rightarrow> Inl e
                        | Inr explanation \<Rightarrow>
                            Inr (js_or content (JSString []),
                                 js_or explanation (JSString [])))))
      | Inr _ \<Rightarrow> Inl TypeError)"

text \<open>The request of lines 90 to 101.\<close>

definition ollama_request :: "string \<Rightarrow> request" where
  "ollama_request prompt =
     \<lparr>req_url = OLLAMA_API, req_method = ''POST'',
      req_content_type = ''application/json'',
      req_body = \<lparr>body_model = ''mistral'', body_prompt = prompt, body_stream = False\<rparr>\<rparr>"

text \<open>
  The outer \<^verbatim>\<open>try\<close> block (lines 97 to 122), with the inner \<^verbatim>\<open>catch\<close>: whatever
  the inner block throws becomes the pair \<^verbatim>\<open>['Invalid response format', '']\<close>.
\<close>

definition request_suggestion :: "net \<Rightarrow> string \<Rightarrow> js_error + (jsvalue \<times> jsvalue)" where
  "request_suggestion n prompt =
     (case fetch n (ollama_request prompt) of
        Inl e \<Rightarrow> Inl e
      | Inr resp \<Rightarrow>
          if \<not> ok resp then Inl (HttpError (status resp))
          else (case response_text resp of
                  Inl e \<Rightarrow> Inl e
                | Inr responseText \<Rightarrow>
                    (case JSON_parse n responseText of
                       None \<Rightarrow> Inl SyntaxError
                     | Some responseObj \<Rightarrow>
                         (case parse_suggestion (JSON_parse n) responseObj of
                            Inl e \<Rightarrow> Inr (JSString ''Invalid response format'', JSString [])
                          | Inr r \<Rightarrow> Inr r))))"

text \<open>
  \<^verbatim>\<open>getFixSuggestions\<close> (lines 87 to 127). The result is the promise's outcome:
  \<open>Inr\<close> the pair it resolves to (suggestion first, explanation second),
  \<open>Inl\<close> a rejection. The outer \<^verbatim>\<open>catch\<close> turns every throw of the outer block into
  the pair \<^verbatim>\<open>['Error analyzing accessibility issues', '']\<close>. The two
  \<^verbatim>\<open>console.error\<close> calls are not modelled.
\<close>

definition getFixSuggestions :: "net \<Rightarrow> string \<Rightarrow> js_error + (jsvalue \<times> jsvalue)" where
  "getFixSuggestions n prompt =
     (case request_suggestion n prompt of
        Inl error \<Rightarrow> Inr (JSString ''Error analyzing accessibility issues'', JSString [])
      | Inr r \<Rightarrow> Inr r)"

section \<open>The notebook, the oracle and the DOM\<close>

text \<open>
  A notebook panel is the ordered list \<^verbatim>\<open>panel.content.widgets\<close>. An entry may be
  missing (\<^verbatim>\<open>!cell\<close>), and a cell may lack its model (\<^verbatim>\<open>!cell.model\<close>). Of a
  cell's DOM node the code reads three things: the node's own \<^verbatim>\<open>innerHTML\<close>, and
  the \<^verbatim>\<open>innerHTML\<close> of the first descendant matching \<^verbatim>\<open>.jp-MarkdownOutput\<close> and
  \<^verbatim>\<open>.jp-OutputArea\<close> (\<open>None\<close> when \<^verbatim>\<open>querySelector\<close> returns \<^verbatim>\<open>null\<close>).
\<close>

record cell_model =
  cell_type :: string       \<comment> \<open>\<^verbatim>\<open>cell.model.type\<close>\<close>
  source :: string          \<comment> \<open>\<^verbatim>\<open>cell.model.sharedModel\<close>: \<^verbatim>\<open>getSource\<close>, \<^verbatim>\<open>setSource\<close>\<close>

record cell_node =
  node_innerHTML :: string
  markdown_output :: "string option"
  output_area :: "string option"

record cell =
  model :: "cell_model option"
  node :: cell_node

record notebook_panel =
  widgets :: "cell option list"

record violation =
  v_id :: string
  v_impact :: string
  v_description :: string
  v_help :: string
  v_helpUrl :: string

record run_options =
  runOnly :: "string list"
  rules :: "(string \<times> bool) list"   \<comment> \<open>rule id, \<^verbatim>\<open>enabled\<close>\<close>

text \<open>The scratch \<^verbatim>\<open>div\<close> as the oracle receives it.\<close>

record container =
  innerHTML :: string
  in_document :: bool

text \<open>
  What the host and the browser do is not in this repository:
  \<^item> \<open>axe_run\<close> is \<^verbatim>\<open>axe.run\<close>, resolving to the violations or rejecting;
  \<^item> \<open>html_roundtrip\<close> is what \<^verbatim>\<open>element.innerHTML\<close> reads back after a string
    was assigned to it (the browser parses and serialises again);
  \<^item> \<open>on_source_changed\<close> is what the host has done to the cell's DOM node by
    the time \<^verbatim>\<open>setSource\<close> returns;
  \<^item> \<open>setSource_other\<close> is what \<^verbatim>\<open>setSource\<close> does with an argument that is not
    a string.
\<close>

record host =
  axe_run :: "container \<Rightarrow> run_options \<Rightarrow> js_error + violation list"
  html_roundtrip :: "string \<Rightarrow> string"
  on_source_changed :: "string \<Rightarrow> cell_node \<Rightarrow> cell_node"
  setSource_other :: "jsvalue \<Rightarrow> cell_model \<Rightarrow> js_error + cell_model"

record CellAccessibilityIssue =
  cellIndex :: nat
  cellType :: string
  axeResults :: "violation list"
  contentRaw :: string

datatype console_entry =
  Warn_skipping_cell nat   \<comment> \<open>\<^verbatim>\<open>console.warn(`Skipping cell ${i}: Invalid cell or model`)\<close>\<close>

text \<open>
  The mutable world. Notebook panels are shared objects, held by reference in
  \<open>notebooks\<close>. Scratch \<^verbatim>\<open>div\<close>s made by \<^verbatim>\<open>document.createElement\<close> are numbered in
  order of creation; \<open>scratch_attached\<close> lists those that are children of
  \<^verbatim>\<open>document.body\<close>. \<open>panel_issue_nodes\<close> lists the widget nodes that are children
  of the panel's \<^verbatim>\<open>issuesContainer\<close>. \<open>axe_calls\<close> records every invocation of the
  oracle.
\<close>

record world =
  notebooks :: "nat \<Rightarrow> notebook_panel"
  elements_created :: nat
  scratch_attached :: "nat list"
  panel_issue_nodes :: "nat list"
  console :: "console_entry list"
  axe_calls :: "(container \<times> run_options) list"

definition createElement :: "world \<Rightarrow> nat \<times> world" where
  "createElement w = (elements_created w, w\<lparr>elements_created := Suc (elements_created w)\<rparr>)"

definition appendChild_body :: "nat \<Rightarrow> world \<Rightarrow> world" where
  "appendChild_body e w = w\<lparr>scratch_attached := scratch_attached w @ [e]\<rparr>"

definition remove_scratch :: "nat \<Rightarrow> world \<Rightarrow> world" where
  "remove_scratch e w = w\<lparr>scratch_attached := removeAll e (scratch_attached w)\<rparr>"

definition remove_widget_node :: "nat \<Rightarrow> world \<Rightarrow> world" where
  "remove_widget_node e w = w\<lparr>panel_issue_nodes := removeAll e (panel_issue_nodes w)\<rparr>"

definition console_warn :: "console_entry \<Rightarrow> world \<Rightarrow> world" where
  "console_warn m w = w\<lparr>console := console w @ [m]\<rparr>"

definition run_axe ::
  "host \<Rightarrow> container \<Rightarrow> run_options \<Rightarrow> world \<Rightarrow> (js_error + violation list) \<times> world" where
  "run_axe h c opts w = (axe_run h c opts, w\<lparr>axe_calls := axe_calls w @ [(c, opts)]\<rparr>)"

section \<open>The scanner: \<^verbatim>\<open>analyzeCellsAccessibility\<close>\<close>

definition axeConfig :: run_options where
  "axeConfig =
     \<lparr>runOnly = [''wcag2a'', ''wcag2aa'', ''wcag21a'', ''wcag21aa''],
      rules = [(''button-name'', False)]\<rparr>"

text \<open>Lines 38 to 44: the output element by cell type; \<^verbatim>\<open>output\<close> stays undefined otherwise.\<close>

definition select_output :: "string \<Rightarrow> cell_node \<Rightarrow> string option" where
  "select_output ty nd =
     (if ty = ''markdown'' then markdown_output nd
      else if ty = ''code'' then output_area nd
      else None)"

text \<open>
  The loop body (lines 32 to 59) for the cell at index \<open>i\<close>: the issue it pushes,
  if any, or the error it throws. The scratch \<^verbatim>\<open>div\<close> is attached to the document
  while the loop runs.
\<close>

definition analyze_cell ::
  "host \<Rightarrow> nat \<Rightarrow> cell option \<Rightarrow> world \<Rightarrow> (js_error + CellAccessibilityIssue option) \<times> world" where
  "analyze_cell h i c w =
     (case c of
        None \<Rightarrow> (Inr None, console_warn (Warn_skipping_cell i) w)
      | Some cl \<Rightarrow>
          (case model cl of
             None \<Rightarrow> (Inr None, console_warn (Warn_skipping_cell i) w)
           | Some m \<Rightarrow>
               (case select_output (cell_type m) (node cl) of
                  None \<Rightarrow> (Inr None, w)
                | Some html \<Rightarrow>
                    (let tempHTML = html_roundtrip h html in
                     if trim tempHTML = [] then (Inr None, w)
                     else
                       (case run_axe h \<lparr>innerHTML = tempHTML, in_document = True\<rparr> axeConfig w of
                          (Inl e, w') \<Rightarrow> (Inl e, w')
                        | (Inr violations, w') \<Rightarrow>
                            if length violations > 0
                            then (Inr (Some \<lparr>cellIndex = i, cellType = cell_type m,
                                             axeResults = violations,
                                             contentRaw = source m\<rparr>), w')
                            else (Inr None, w'))))))"

text \<open>The \<^verbatim>\<open>for\<close> loop over the cells from index \<open>i\<close> on; a throw leaves the loop.\<close>

fun scan_cells ::
  "host \<Rightarrow> nat \<Rightarrow> cell option list \<Rightarrow> CellAccessibilityIssue list \<Rightarrow> world
     \<Rightarrow> (js_error + CellAccessibilityIssue list) \<times> world" where
  "scan_cells h i [] issues w = (Inr issues, w)"
| "scan_cells h i (c # cs) issues w =
     (case analyze_cell h i c w of
        (Inl e, w') \<Rightarrow> (Inl e, w')
      | (Inr None, w') \<Rightarrow> scan_cells h (Suc i) cs issues w'
      | (Inr (Some issue), w') \<Rightarrow> scan_cells h (Suc i) cs (issues @ [issue]) w')"

text \<open>
  \<^verbatim>\<open>analyzeCellsAccessibility\<close> (lines 18 to 66): create and attach the scratch
  \<^verbatim>\<open>div\<close>, run the loop inside \<^verbatim>\<open>try\<close>, and detach the \<^verbatim>\<open>div\<close> in \<^verbatim>\<open>finally\<close>, whether
  the loop returned or threw. The issues are returned only when the loop
  returned. Nothing else touches the notebook while the scan awaits the oracle.
\<close>

definition analyzeCellsAccessibility ::
  "host \<Rightarrow> notebook_panel \<Rightarrow> world \<Rightarrow> (js_error + CellAccessibilityIssue list) \<times> world" where
  "analyzeCellsAccessibility h panel w =
     (case createElement w of
        (tempDiv, w1) \<Rightarrow>
          (case scan_cells h 0 (widgets panel) [] (appendChild_body tempDiv w1) of
             (r, w2) \<Rightarrow> (r, remove_scratch tempDiv w2)))"

section \<open>The prompt: \<^verbatim>\<open>formatPrompt\<close>\<close>

definition formatPrompt :: "CellAccessibilityIssue \<Rightarrow> string" where
  "formatPrompt issue =
     ''The following represents a jupyter notebook cell and a accessibility issue found in it.''
       @ [CHR 0x0A, CHR 0x0A]
       @ ''Content: '' @ [CHR 0x0A] @ contentRaw issue @ [CHR 0x0A, CHR 0x0A]
       @ concat (map (\<lambda>v. ''Issue: '' @ v_id v @ [CHR 0x0A, CHR 0x0A]
                          @ ''Description: '' @ v_description v @ [CHR 0x0A, CHR 0x0A])
                     (axeResults issue))"

section \<open>The issue widget: \<^verbatim>\<open>CellIssueWidget\<close>\<close>

text \<open>
  The fields of the widget that the code reads after construction. The field
  \<^verbatim>\<open>suggestion\<close> is declared \<^verbatim>\<open>string\<close> but receives the first component of what
  \<^verbatim>\<open>getFixSuggestions\<close> resolves to, unchecked. \<open>node_id\<close> names the widget's DOM
  node; \<open>isDisposed\<close> is set by \<^verbatim>\<open>dispose()\<close>.
\<close>

record CellIssueWidget =
  node_id :: nat
  currentNotebook :: "nat option"
  widget_cellIndex :: nat
  suggestion :: jsvalue
  isDisposed :: bool

text \<open>
  The constructor (lines 138 to 219), up to the request: the notebook and the
  cell index are stored, the suggestion is the empty string.
\<close>

definition new_CellIssueWidget :: "nat \<Rightarrow> CellAccessibilityIssue \<Rightarrow> nat \<Rightarrow> CellIssueWidget" where
  "new_CellIssueWidget nid issue notebook =
     \<lparr>node_id = nid, currentNotebook = Some notebook, widget_cellIndex = cellIndex issue,
      suggestion = JSString [], isDisposed = False\<rparr>"

text \<open>
  The \<^verbatim>\<open>then\<close> callback of the constructor (lines 214 to 218), run when the
  promise of \<^verbatim>\<open>getFixSuggestions(formatPrompt(issue))\<close> resolves: the suggestion is
  stored. (The two \<^verbatim>\<open>textContent\<close> assignments are display only.)
\<close>

definition receive_suggestion ::
  "net \<Rightarrow> CellAccessibilityIssue \<Rightarrow> CellIssueWidget \<Rightarrow> CellIssueWidget" where
  "receive_suggestion n issue wd =
     (case getFixSuggestions n (formatPrompt issue) of
        Inl e \<Rightarrow> wd
      | Inr (sugg, explanation) \<Rightarrow> wd\<lparr>suggestion := sugg\<rparr>)"

text \<open>\<^verbatim>\<open>widgets[i]\<close>: \<^verbatim>\<open>undefined\<close> beyond the end of the array.\<close>

definition lookup_cell :: "cell option list \<Rightarrow> nat \<Rightarrow> cell option" where
  "lookup_cell cells i = (if i < length cells then cells ! i else None)"

text \<open>
  \<^verbatim>\<open>sharedModel.setSource\<close> is host code, declared on strings: the source becomes
  the string. A truthy value that is not a string can reach the call at run
  time; what happens then is the host's.
\<close>

fun setSource :: "host \<Rightarrow> jsvalue \<Rightarrow> cell_model \<Rightarrow> js_error + cell_model" where
  "setSource h (JSString s) m = Inr (m\<lparr>source := s\<rparr>)"
| "setSource h v m = setSource_other h v m"

text \<open>
  \<^verbatim>\<open>applySuggestion\<close> (lines 241 to 269). The result is the promise's outcome
  with the widget and the world as the call leaves them. The scratch \<^verbatim>\<open>div\<close> of
  this function is created and never attached; the options of the oracle are
  written out a second time in the source, as here. The code between
  \<^verbatim>\<open>await\<close> and its continuation runs without interleaving in the model.
\<close>

definition applySuggestion ::
  "host \<Rightarrow> CellIssueWidget \<Rightarrow> world \<Rightarrow> (js_error + unit) \<times> CellIssueWidget \<times> world" where
  "applySuggestion h wd w =
     (case currentNotebook wd of
        None \<Rightarrow> (Inr (), wd, w)
      | Some nb \<Rightarrow>
          if \<not> truthy (suggestion wd) then (Inr (), wd, w)
          else
            (case lookup_cell (widgets (notebooks w nb)) (widget_cellIndex wd) of
               None \<Rightarrow> (Inr (), wd, w)
             | Some cl \<Rightarrow>
                 (case model cl of
                    None \<Rightarrow> (Inr (), wd, w)
                  | Some m \<Rightarrow>
                      (case setSource h (suggestion wd) m of
                         Inl e \<Rightarrow> (Inl e, wd, w)
                       | Inr m' \<Rightarrow>
                           (let cl' = cl\<lparr>model := Some m',
                                         node := on_source_changed h (source m') (node cl)\<rparr>;
                                panel = notebooks w nb;
                                w1 = w\<lparr>notebooks := (notebooks w)
                                       (nb := panel\<lparr>widgets :=
                                          (widgets panel)[widget_cellIndex wd := Some cl']\<rparr>)\<rparr>
                            in case createElement w1 of
                                 (tempDiv, w2) \<Rightarrow>
                                   (case run_axe h
                                           \<lparr>innerHTML = html_roundtrip h (node_innerHTML (node cl')),
                                            in_document = False\<rparr>
                                           \<lparr>runOnly = [''wcag2a'', ''wcag2aa'', ''wcag21a'', ''wcag21aa''],
                                            rules = [(''button-name'', False)]\<rparr> w2 of
                                      (Inl e, w3) \<Rightarrow> (Inl e, wd, remove_scratch tempDiv w3)
                                    | (Inr violations, w3) \<Rightarrow>
                                        if length violations = 0
                                        then (Inr (), wd\<lparr>isDisposed := True\<rparr>,
                                              remove_scratch tempDiv
                                                (remove_widget_node (node_id wd) w3))
                                        else (Inr (), wd, remove_scratch tempDiv w3)))))))"

section \<open>Observations used in the statements\<close>

text \<open>The source text of cell \<open>i\<close> of notebook \<open>nb\<close>, when that cell and its model exist.\<close>

definition cell_source :: "world \<Rightarrow> nat \<Rightarrow> nat \<Rightarrow> string option" where
  "cell_source w nb i =
     (case lookup_cell (widgets (notebooks w nb)) i of
        None \<Rightarrow> None
      | Some cl \<Rightarrow> map_option source (model cl))"

text \<open>
  A cell has non-empty rendered output: it has a model, its type selects an
  output element that exists, and what the scratch \<^verbatim>\<open>div\<close> holds of it is not
  blank.
\<close>

definition rendered_nonempty :: "host \<Rightarrow> cell option \<Rightarrow> bool" where
  "rendered_nonempty h c =
     (case c of
        None \<Rightarrow> False
      | Some cl \<Rightarrow>
          (case model cl of
             None \<Rightarrow> False
           | Some m \<Rightarrow>
               (case select_output (cell_type m) (node cl) of
                  None \<Rightarrow> False
                | Some html \<Rightarrow> trim (html_roundtrip h html) \<noteq> [])))"

text \<open>The issues a scan hands to its caller: none when it fails.\<close>

definition returned_issues ::
  "(js_error + CellAccessibilityIssue list) \<times> world \<Rightarrow> CellAccessibilityIssue list" where
  "returned_issues out = (case fst out of Inl e \<Rightarrow> [] | Inr issues \<Rightarrow> issues)"

section \<open>Sample backends and a sample notebook\<close>

text \<open>How JSON writes a string: quotes around it, with the quote, the backslash and LF escaped.\<close>

fun json_escape :: "string \<Rightarrow> string" where
  "json_escape [] = []"
| "json_escape (c # cs) =
     (if c = CHR 0x22 then [CHR 0x5C, CHR 0x22]
      else if c = CHR 0x5C then [CHR 0x5C, CHR 0x5C]
      else if c = CHR 0x0A then [CHR 0x5C, CHR ''n'']
      else [c]) @ json_escape cs"

definition json_quote :: "string \<Rightarrow> string" where
  "json_quote s = [CHR 0x22] @ json_escape s @ [CHR 0x22]"

text \<open>
  Two response bodies: the fenced payload of the specification's scenario, and
  an unfenced payload whose \<^verbatim>\<open>exampleCellContent\<close> is the JSON literal \<^verbatim>\<open>true\<close>.
\<close>

definition alt_payload :: string where
  \<open>alt_payload = ''{"exampleCellContent":"alt text here","explanation":"added alt"}''\<close>

definition fenced_body :: string where
  \<open>fenced_body = ''{"response":'' @ json_quote (fence_open @ alt_payload @ fence_close) @ ''}''\<close>

definition untyped_payload :: string where
  \<open>untyped_payload = ''{"exampleCellContent":true}''\<close>

definition untyped_body :: string where
  \<open>untyped_body = ''{"response":'' @ json_quote untyped_payload @ ''}''\<close>

text \<open>\<^verbatim>\<open>JSON.parse\<close> on these four texts; every other text is rejected.\<close>

definition sample_JSON_parse :: "string \<Rightarrow> jsvalue option" where
  "sample_JSON_parse s =
     (if s = fenced_body
      then Some (JSObject [(''response'', JSString (fence_open @ alt_payload @ fence_close))])
      else if s = alt_payload
      then Some (JSObject [(''exampleCellContent'', JSString ''alt text here''),
                           (''explanation'', JSString ''added alt'')])
      else if s = untyped_body
      then Some (JSObject [(''response'', JSString untyped_payload)])
      else if s = untyped_payload
      then Some (JSObject [(''exampleCellContent'', JSBool True)])
      else None)"

definition http_500_net :: net where
  "http_500_net =
     \<lparr>fetch = (\<lambda>r. Inr \<lparr>status = 500, response_text = Inr ''Internal Server Error''\<rparr>),
      JSON_parse = sample_JSON_parse\<rparr>"

definition unreachable_net :: net where
  "unreachable_net = \<lparr>fetch = (\<lambda>r. Inl NetworkError), JSON_parse = sample_JSON_parse\<rparr>"

definition fenced_net :: net where
  "fenced_net =
     \<lparr>fetch = (\<lambda>r. Inr \<lparr>status = 200, response_text = Inr fenced_body\<rparr>),
      JSON_parse = sample_JSON_parse\<rparr>"

definition untyped_net :: net where
  "untyped_net =
     \<lparr>fetch = (\<lambda>r. Inr \<lparr>status = 200, response_text = Inr untyped_body\<rparr>),
      JSON_parse = sample_JSON_parse\<rparr>"

text \<open>
  A third body: the fenced payload that has the suggestion and lacks the
  explanation, with \<^verbatim>\<open>JSON.parse\<close> on it.
\<close>

definition partial_payload :: string where
  \<open>partial_payload = ''{"exampleCellContent":"alt text here"}''\<close>

definition partial_body :: string where
  \<open>partial_body =
     ''{"response":'' @ json_quote (fence_open @ partial_payload @ fence_close) @ ''}''\<close>

definition partial_JSON_parse :: "string \<Rightarrow> jsvalue option" where
  "partial_JSON_parse s =
     (if s = partial_body
      then Some (JSObject [(''response'',
                            JSString (fence_open @ partial_payload @ fence_close))])
      else if s = partial_payload
      then Some (JSObject [(''exampleCellContent'', JSString ''alt text here'')])
      else None)"

definition partial_net :: net where
  "partial_net =
     \<lparr>fetch = (\<lambda>r. Inr \<lparr>status = 200, response_text = Inr partial_body\<rparr>),
      JSON_parse = partial_JSON_parse\<rparr>"

text \<open>
  A notebook of three cells: a code cell without output, a markdown cell whose
  rendering has pale text, and a raw cell. One host's oracle reports a contrast
  violation on whatever it is given, another's reports none, a third's fails.
\<close>

definition contrast_violation :: violation where
  "contrast_violation =
     \<lparr>v_id = ''color-contrast'', v_impact = ''serious'',
      v_description = ''Ensures the contrast between foreground and background colors is sufficient'',
      v_help = ''Elements must have sufficient color contrast'',
      v_helpUrl = ''https://dequeuniversity.com/rules/axe/color-contrast''\<rparr>"

definition sample_code_cell :: cell where
  "sample_code_cell =
     \<lparr>model = Some \<lparr>cell_type = ''code'', source = ''x = 1''\<rparr>,
      node = \<lparr>node_innerHTML = ''<div class=jp-OutputArea></div>'',
              markdown_output = None, output_area = Some []\<rparr>\<rparr>"

definition sample_markdown_cell :: cell where
  "sample_markdown_cell =
     \<lparr>model = Some \<lparr>cell_type = ''markdown'', source = ''<font color=#eee>pale</font>''\<rparr>,
      node = \<lparr>node_innerHTML =
                ''<div class=jp-MarkdownOutput><p><font color=#eee>pale</font></p></div>'',
              markdown_output = Some ''<p><font color=#eee>pale</font></p>'',
              output_area = None\<rparr>\<rparr>"

definition sample_raw_cell :: cell where
  "sample_raw_cell =
     \<lparr>model = Some \<lparr>cell_type = ''raw'', source = ''plain text''\<rparr>,
      node = \<lparr>node_innerHTML = ''<pre>plain text</pre>'',
              markdown_output = None, output_area = None\<rparr>\<rparr>"

definition sample_panel :: notebook_panel where
  "sample_panel =
     \<lparr>widgets = [Some sample_code_cell, Some sample_markdown_cell, Some sample_raw_cell]\<rparr>"

definition flagging_host :: host where
  "flagging_host =
     \<lparr>axe_run = (\<lambda>c opts. Inr [contrast_violation]),
      html_roundtrip = (\<lambda>s. s),
      on_source_changed = (\<lambda>src nd. nd),
      setSource_other = (\<lambda>v m. Inl TypeError)\<rparr>"

definition passing_host :: host where
  "passing_host =
     \<lparr>axe_run = (\<lambda>c opts. Inr []),
      html_roundtrip = (\<lambda>s. s),
      on_source_changed = (\<lambda>src nd. nd),
      setSource_other = (\<lambda>v m. Inl TypeError)\<rparr>"

definition failing_host :: host where
  "failing_host =
     \<lparr>axe_run = (\<lambda>c opts. Inl OracleError),
      html_roundtrip = (\<lambda>s. s),
      on_source_changed = (\<lambda>src nd. nd),
      setSource_other = (\<lambda>v m. Inl TypeError)\<rparr>"

definition sample_world :: world where
  "sample_world =
     \<lparr>notebooks = (\<lambda>r. sample_panel), elements_created = 0, scratch_attached = [],
      panel_issue_nodes = [0], console = [], axe_calls = []\<rparr>"

definition sample_issue :: CellAccessibilityIssue where
  "sample_issue =
     \<lparr>cellIndex = 1, cellType = ''markdown'', axeResults = [contrast_violation],
      contentRaw = ''<font color=#eee>pale</font>''\<rparr>"

definition sample_widget :: CellIssueWidget where
  "sample_widget =
     \<lparr>node_id = 0, currentNotebook = Some 0, widget_cellIndex = 1,
      suggestion = JSString ''pale'', isDisposed = False\<rparr>"

section \<open>The backend always answers\<close>

lemma js_or_not_null:
  "js_or a (JSString []) \<noteq> JSNull" "js_or a (JSString []) \<noteq> JSUndefined"
  by (cases a; simp add: js_or_def)+

lemma parse_suggestion_Inr:
  assumes "parse_suggestion parse obj = Inr (s, e)"
  shows "\<exists>t result a b. parse t = Some result \<and>
           get_property result ''exampleCellContent'' = Inr a \<and>
           get_property result ''explanation'' = Inr b \<and>
           s = js_or a (JSString []) \<and> e = js_or b (JSString [])"
proof (cases "get_property obj ''response''")
  case (Inl err)
  with assms show ?thesis by (simp add: parse_suggestion_def)
next
  case (Inr v)
  show ?thesis
  proof (cases v)
    case (JSString str)
    let ?raw = "trim (replace_first fence_close [] (replace_first fence_open [] str))"
    from assms Inr JSString obtain result where p: "parse ?raw = Some result"
      by (cases "parse ?raw") (simp_all add: parse_suggestion_def)
    from assms Inr JSString p obtain a where
      a: "get_property result ''exampleCellContent'' = Inr a"
      by (cases "get_property result ''exampleCellContent''")
         (simp_all add: parse_suggestion_def)
    from assms Inr JSString p a obtain b where
      b: "get_property result ''explanation'' = Inr b"
      by (cases "get_property result ''explanation''")
         (simp_all add: parse_suggestion_def)
    from assms Inr JSString p a b
    have "s = js_or a (JSString []) \<and> e = js_or b (JSString [])"
      by (simp add: parse_suggestion_def)
    with p a b show ?thesis by blast
  qed (use assms Inr in \<open>simp_all add: parse_suggestion_def\<close>)
qed

lemma request_suggestion_Inr:
  "request_suggestion n p = Inr r \<Longrightarrow>
     r = (JSString ''Invalid response format'', JSString []) \<or>
     (\<exists>obj. parse_suggestion (JSON_parse n) obj = Inr r)"
  by (auto simp: request_suggestion_def split: sum.splits if_splits option.splits)

lemma failure_placeholder:
  assumes "fetch n (ollama_request prompt) = Inl err \<or>
     (\<exists>resp. fetch n (ollama_request prompt) = Inr resp \<and> \<not> ok resp) \<or>
     (\<exists>resp body obj err'. fetch n (ollama_request prompt) = Inr resp \<and> ok resp \<and>
        response_text resp = Inr body \<and> JSON_parse n body = Some obj \<and>
        parse_suggestion (JSON_parse n) obj = Inl err')"
  shows "getFixSuggestions n prompt =
           Inr (JSString ''Error analyzing accessibility issues'', JSString []) \<or>
         getFixSuggestions n prompt = Inr (JSString ''Invalid response format'', JSString [])"
  using assms
  by (auto simp: getFixSuggestions_def request_suggestion_def)

text \<open>\<^verbatim>\<open>result.name || ''\<close> on an object: a field that is absent or falsy gives the empty string.\<close>

lemma field_default:
  "js_or (case map_of members k of None \<Rightarrow> JSUndefined | Some v \<Rightarrow> v) (JSString []) =
     (case map_of members k of
        None \<Rightarrow> JSString []
      | Some v \<Rightarrow> if truthy v then v else JSString [])"
  by (simp add: js_or_def split: option.splits)

subsection \<open>The sample parsers on their texts\<close>

lemma strip_alt:
  "trim (replace_first fence_close [] (replace_first fence_open []
      (fence_open @ alt_payload @ fence_close))) = alt_payload"
  by (simp add: fence_open_def fence_close_def alt_payload_def trim_def is_js_space_def)

lemma strip_untyped:
  "trim (replace_first fence_close [] (replace_first fence_open [] untyped_payload))
     = untyped_payload"
  by (simp add: fence_open_def fence_close_def untyped_payload_def trim_def is_js_space_def)

lemma parse_fenced_body:
  "sample_JSON_parse fenced_body =
     Some (JSObject [(''response'', JSString (fence_open @ alt_payload @ fence_close))])"
  by (simp add: sample_JSON_parse_def)

lemma alt_payload_distinct: "alt_payload \<noteq> fenced_body"
  by (simp add: alt_payload_def fenced_body_def)

lemma parse_alt_payload:
  "sample_JSON_parse alt_payload =
     Some (JSObject [(''exampleCellContent'', JSString ''alt text here''),
                     (''explanation'', JSString ''added alt'')])"
  by (simp add: sample_JSON_parse_def alt_payload_distinct)

lemma untyped_body_distinct: "untyped_body \<noteq> fenced_body" "untyped_body \<noteq> alt_payload"
  by (simp_all add: untyped_body_def untyped_payload_def alt_payload_def fenced_body_def
        json_quote_def fence_open_def)

lemma parse_untyped_body:
  "sample_JSON_parse untyped_body = Some (JSObject [(''response'', JSString untyped_payload)])"
  by (simp add: sample_JSON_parse_def untyped_body_distinct)

lemma untyped_payload_distinct:
  "untyped_payload \<noteq> fenced_body" "untyped_payload \<noteq> alt_payload"
  "untyped_payload \<noteq> untyped_body"
  by (simp_all add: untyped_payload_def untyped_body_def alt_payload_def fenced_body_def
        json_quote_def)

lemma parse_untyped_payload:
  "sample_JSON_parse untyped_payload = Some (JSObject [(''exampleCellContent'', JSBool True)])"
  by (simp add: sample_JSON_parse_def untyped_payload_distinct)

lemma strip_partial:
  "trim (replace_first fence_close [] (replace_first fence_open []
      (fence_open @ partial_payload @ fence_close))) = partial_payload"
  by (simp add: fence_open_def fence_close_def partial_payload_def trim_def is_js_space_def)

lemma parse_partial_body:
  "partial_JSON_parse partial_body =
     Some (JSObject [(''response'', JSString (fence_open @ partial_payload @ fence_close))])"
  by (simp add: partial_JSON_parse_def)

lemma partial_payload_distinct: "partial_payload \<noteq> partial_body"
  by (simp add: partial_payload_def partial_body_def)

lemma parse_partial_payload:
  "partial_JSON_parse partial_payload =
     Some (JSObject [(''exampleCellContent'', JSString ''alt text here'')])"
  by (simp add: partial_JSON_parse_def partial_payload_distinct)

subsection \<open>Non-success status\<close>

text \<open>
  Claim C1, as the code has it. When the transport answers with a non-success
  status, \<^verbatim>\<open>getFixSuggestions\<close> resolves to the pair whose suggestion is the text
  \<^verbatim>\<open>Error analyzing accessibility issues\<close> and whose explanation is the empty
  string: the message sits in the suggestion, not in the explanation.
\<close>

theorem non_success_status_placeholder:
  assumes "fetch n (ollama_request prompt) = Inr resp" and "\<not> ok resp"
  shows "getFixSuggestions n prompt =
           Inr (JSString ''Error analyzing accessibility issues'', JSString [])"
  using assms by (simp add: getFixSuggestions_def request_suggestion_def)

theorem non_success_status_placeholder_witness:
  "\<not> ok \<lparr>status = 500, response_text = Inr ''Internal Server Error''\<rparr> \<and>
   getFixSuggestions http_500_net ''Content: ...'' =
     Inr (JSString ''Error analyzing accessibility issues'', JSString [])"
proof -
  have f: "fetch http_500_net (ollama_request ''Content: ...'')
             = Inr \<lparr>status = 500, response_text = Inr ''Internal Server Error''\<rparr>"
    by (simp add: http_500_net_def)
  have nok: "\<not> ok \<lparr>status = 500, response_text = Inr ''Internal Server Error''\<rparr>"
    by (simp add: ok_def)
  from non_success_status_placeholder [OF f nok] nok show ?thesis by simp
qed

text \<open>
  Claim C1 as stated fails on a status of 500: the suggestion returned is not
  the empty string, and the explanation is.
\<close>

theorem status_500_counterexample:
  "fetch http_500_net (ollama_request ''Content: ...'')
     = Inr \<lparr>status = 500, response_text = Inr ''Internal Server Error''\<rparr> \<and>
   fst (projr (getFixSuggestions http_500_net ''Content: ...'')) \<noteq> JSString [] \<and>
   snd (projr (getFixSuggestions http_500_net ''Content: ...'')) = JSString []"
  by (simp add: getFixSuggestions_def request_suggestion_def http_500_net_def ok_def)

subsection \<open>Every outcome is a pair\<close>

text \<open>
  \<^verbatim>\<open>getFixSuggestions\<close> never rejects: whatever the transport and the parser do,
  it resolves to a pair, and neither component is \<^verbatim>\<open>null\<close> or \<^verbatim>\<open>undefined\<close>.
\<close>

lemma getFixSuggestions_resolves:
  "\<exists>s e. getFixSuggestions n prompt = Inr (s, e) \<and>
      s \<noteq> JSNull \<and> s \<noteq> JSUndefined \<and> e \<noteq> JSNull \<and> e \<noteq> JSUndefined"
proof (cases "request_suggestion n prompt")
  case (Inl err)
  then show ?thesis by (simp add: getFixSuggestions_def)
next
  case (Inr r)
  then have g: "getFixSuggestions n prompt = Inr (fst r, snd r)"
    by (simp add: getFixSuggestions_def)
  from request_suggestion_Inr [OF Inr]
  have "fst r \<noteq> JSNull \<and> fst r \<noteq> JSUndefined \<and> snd r \<noteq> JSNull \<and> snd r \<noteq> JSUndefined"
  proof
    assume "r = (JSString ''Invalid response format'', JSString [])"
    then show ?thesis by simp
  next
    assume "\<exists>obj. parse_suggestion (JSON_parse n) obj = Inr r"
    then obtain obj where "parse_suggestion (JSON_parse n) obj = Inr (fst r, snd r)" by auto
    from parse_suggestion_Inr [OF this] obtain a b where
      "fst r = js_or a (JSString [])" "snd r = js_or b (JSString [])" by blast
    then show ?thesis by (simp add: js_or_not_null)
  qed
  with g show ?thesis by blast
qed

text \<open>
  Claim C3, that both components are strings for every response, does not hold
  of the code. The function is declared to return \<^verbatim>\<open>Promise<string[]>\<close>, and
  every failure path returns two strings; but line 118 returns a field of the
  parsed payload without looking at its type. When the service answers with
  the payload \<^verbatim>\<open>{"exampleCellContent":true}\<close>, the call resolves to the pair of
  the boolean \<^verbatim>\<open>true\<close> and the empty string, and the first component is not a
  string.
\<close>

theorem untyped_field_returned:
  "fetch untyped_net (ollama_request ''Content: ...'')
     = Inr \<lparr>status = 200, response_text = Inr untyped_body\<rparr> \<and>
   JSON_parse untyped_net untyped_body
     = Some (JSObject [(''response'', JSString untyped_payload)]) \<and>
   JSON_parse untyped_net untyped_payload
     = Some (JSObject [(''exampleCellContent'', JSBool True)]) \<and>
   getFixSuggestions untyped_net ''Content: ...'' = Inr (JSBool True, JSString []) \<and>
   \<not> is_string (JSBool True)"
  by (simp add: getFixSuggestions_def request_suggestion_def untyped_net_def ok_def
        parse_suggestion_def parse_untyped_body parse_untyped_payload strip_untyped
        js_or_def is_string_def)

subsection \<open>The fenced payload\<close>

text \<open>
  Claim C8. Let the transport succeed and the \<^verbatim>\<open>response\<close> field of the body be a
  string \<open>s\<close>, and let \<^verbatim>\<open>JSON.parse\<close> read the text that is left of \<open>s\<close>, once the
  two fence markers are removed and the ends trimmed, as an object. Then
  \<^verbatim>\<open>getFixSuggestions\<close> resolves to the pair of that object's
  \<^verbatim>\<open>exampleCellContent\<close> and \<^verbatim>\<open>explanation\<close>, with the empty string in the place of
  a field that is absent (or falsy). What is left of the payload
  \<^verbatim>\<open>{"exampleCellContent":"alt text here","explanation":"added alt"}\<close> between
  the opening fence (three backquotes, \<^verbatim>\<open>json\<close>, LF) and the closing fence (LF,
  three backquotes) is the payload itself. So when \<open>s\<close> is that fenced payload
  and the object has the two fields as written, the text parsed is the payload
  and the result is the suggestion \<^verbatim>\<open>alt text here\<close> with the explanation
  \<^verbatim>\<open>added alt\<close>.
\<close>

theorem fenced_payload_parsed:
  assumes "fetch n (ollama_request prompt) = Inr resp" and "ok resp"
    and "response_text resp = Inr body"
    and "JSON_parse n body = Some (JSObject kvs)"
    and "map_of kvs ''response'' = Some (JSString s)"
    and "JSON_parse n (trim (replace_first fence_close [] (replace_first fence_open [] s)))
           = Some (JSObject members)"
  shows "getFixSuggestions n prompt =
           Inr (case map_of members ''exampleCellContent'' of
                  None \<Rightarrow> JSString []
                | Some v \<Rightarrow> if truthy v then v else JSString [],
                case map_of members ''explanation'' of
                  None \<Rightarrow> JSString []
                | Some v \<Rightarrow> if truthy v then v else JSString []) \<and>
         trim (replace_first fence_close [] (replace_first fence_open []
                 (fence_open @ alt_payload @ fence_close))) = alt_payload \<and>
         (s = fence_open @ alt_payload @ fence_close \<longrightarrow>
          map_of members ''exampleCellContent'' = Some (JSString ''alt text here'') \<longrightarrow>
          map_of members ''explanation'' = Some (JSString ''added alt'') \<longrightarrow>
            JSON_parse n alt_payload = Some (JSObject members) \<and>
            getFixSuggestions n prompt =
              Inr (JSString ''alt text here'', JSString ''added alt''))"
proof -
  have "parse_suggestion (JSON_parse n) (JSObject kvs) =
          Inr (js_or (case map_of members ''exampleCellContent'' of
                        None \<Rightarrow> JSUndefined | Some v \<Rightarrow> v) (JSString []),
               js_or (case map_of members ''explanation'' of
                        None \<Rightarrow> JSUndefined | Some v \<Rightarrow> v) (JSString []))"
    using assms(5,6) by (simp add: parse_suggestion_def)
  then have "request_suggestion n prompt =
          Inr (js_or (case map_of members ''exampleCellContent'' of
                        None \<Rightarrow> JSUndefined | Some v \<Rightarrow> v) (JSString []),
               js_or (case map_of members ''explanation'' of
                        None \<Rightarrow> JSUndefined | Some v \<Rightarrow> v) (JSString []))"
    using assms(1-4) by (simp add: request_suggestion_def)
  then have general: "getFixSuggestions n prompt =
           Inr (case map_of members ''exampleCellContent'' of
                  None \<Rightarrow> JSString []
                | Some v \<Rightarrow> if truthy v then v else JSString [],
                case map_of members ''explanation'' of
                  None \<Rightarrow> JSString []
                | Some v \<Rightarrow> if truthy v then v else JSString [])"
    by (simp add: getFixSuggestions_def field_default)
  have scenario: "s = fence_open @ alt_payload @ fence_close \<longrightarrow>
          map_of members ''exampleCellContent'' = Some (JSString ''alt text here'') \<longrightarrow>
          map_of members ''explanation'' = Some (JSString ''added alt'') \<longrightarrow>
            JSON_parse n alt_payload = Some (JSObject members) \<and>
            getFixSuggestions n prompt =
              Inr (JSString ''alt text here'', JSString ''added alt'')"
  proof (intro impI)
    assume s: "s = fence_open @ alt_payload @ fence_close"
      and c: "map_of members ''exampleCellContent'' = Some (JSString ''alt text here'')"
      and e: "map_of members ''explanation'' = Some (JSString ''added alt'')"
    from assms(6) have "JSON_parse n alt_payload = Some (JSObject members)"
      unfolding s strip_alt .
    moreover from general c e
    have "getFixSuggestions n prompt = Inr (JSString ''alt text here'', JSString ''added alt'')"
      by simp
    ultimately show "JSON_parse n alt_payload = Some (JSObject members) \<and>
            getFixSuggestions n prompt =
              Inr (JSString ''alt text here'', JSString ''added alt'')" by simp
  qed
  from general strip_alt scenario show ?thesis by blast
qed

theorem fenced_payload_parsed_witness:
  "getFixSuggestions fenced_net ''Content: ...'' =
     Inr (JSString ''alt text here'', JSString ''added alt'') \<and>
   getFixSuggestions partial_net ''Content: ...'' =
     Inr (JSString ''alt text here'', JSString [])"
proof -
  let ?resp = "\<lparr>status = 200, response_text = Inr fenced_body\<rparr>"
  let ?members = "[(''exampleCellContent'', JSString ''alt text here''),
                   (''explanation'', JSString ''added alt'')]"
  let ?kvs = "[(''response'', JSString (fence_open @ alt_payload @ fence_close))]"
  have 1: "fetch fenced_net (ollama_request ''Content: ...'') = Inr ?resp"
    by (simp add: fenced_net_def)
  have 2: "ok ?resp" by (simp add: ok_def)
  have 3: "response_text ?resp = Inr fenced_body" by simp
  have 4: "JSON_parse fenced_net fenced_body = Some (JSObject ?kvs)"
    by (simp add: fenced_net_def parse_fenced_body)
  have 5: "map_of ?kvs ''response'' = Some (JSString (fence_open @ alt_payload @ fence_close))"
    by simp
  have 6: "JSON_parse fenced_net (trim (replace_first fence_close [] (replace_first fence_open []
             (fence_open @ alt_payload @ fence_close)))) = Some (JSObject ?members)"
    by (simp add: strip_alt fenced_net_def parse_alt_payload)
  let ?presp = "\<lparr>status = 200, response_text = Inr partial_body\<rparr>"
  let ?pmembers = "[(''exampleCellContent'', JSString ''alt text here'')]"
  let ?pkvs = "[(''response'', JSString (fence_open @ partial_payload @ fence_close))]"
  have p1: "fetch partial_net (ollama_request ''Content: ...'') = Inr ?presp"
    by (simp add: partial_net_def)
  have p2: "ok ?presp" by (simp add: ok_def)
  have p3: "response_text ?presp = Inr partial_body" by simp
  have p4: "JSON_parse partial_net partial_body = Some (JSObject ?pkvs)"
    by (simp add: partial_net_def parse_partial_body)
  have p5: "map_of ?pkvs ''response''
              = Some (JSString (fence_open @ partial_payload @ fence_close))"
    by simp
  have p6: "JSON_parse partial_net (trim (replace_first fence_close []
              (replace_first fence_open [] (fence_open @ partial_payload @ fence_close))))
              = Some (JSObject ?pmembers)"
    by (simp add: strip_partial partial_net_def parse_partial_payload)
  from fenced_payload_parsed [OF 1 2 3 4 5 6] fenced_payload_parsed [OF p1 p2 p3 p4 p5 p6]
  show ?thesis by simp
qed

section \<open>The scanner\<close>

lemma analyze_cell_frame:
  "analyze_cell h i c w = (r, w') \<Longrightarrow>
     elements_created w' = elements_created w \<and> scratch_attached w' = scratch_attached w"
  by (auto simp: analyze_cell_def console_warn_def run_axe_def Let_def
           split: option.splits if_splits sum.splits prod.splits)

lemma scan_cells_frame:
  "scan_cells h i cs issues w = (r, w') \<Longrightarrow>
     elements_created w' = elements_created w \<and> scratch_attached w' = scratch_attached w"
proof (induction cs arbitrary: i issues w)
  case Nil
  then show ?case by simp
next
  case (Cons c cs)
  obtain r1 w1 where step: "analyze_cell h i c w = (r1, w1)"
    by (cases "analyze_cell h i c w")
  have fr: "elements_created w1 = elements_created w \<and> scratch_attached w1 = scratch_attached w"
    using analyze_cell_frame [OF step] by simp
  show ?case
  proof (cases r1)
    case (Inl e)
    with Cons.prems step fr show ?thesis by simp
  next
    case (Inr found)
    show ?thesis
    proof (cases found)
      case None
      with Cons.prems step Inr have "scan_cells h (Suc i) cs issues w1 = (r, w')" by simp
      from Cons.IH [OF this] fr show ?thesis by simp
    next
      case (Some iss)
      with Cons.prems step Inr
      have "scan_cells h (Suc i) cs (issues @ [iss]) w1 = (r, w')" by simp
      from Cons.IH [OF this] fr show ?thesis by simp
    qed
  qed
qed

lemma analyze_cell_issue:
  "analyze_cell h i c w = (Inr (Some iss), w') \<Longrightarrow> cellIndex iss = i \<and> rendered_nonempty h c"
  by (auto simp: analyze_cell_def console_warn_def run_axe_def Let_def rendered_nonempty_def
           split: option.splits if_splits sum.splits prod.splits)

text \<open>
  The loop invariant: an issue of the result was in the accumulator, or belongs
  to a cell of the remaining list, at its index, whose output is not blank.
\<close>

lemma scan_cells_issues:
  "scan_cells h i cs issues w = (Inr res, w') \<Longrightarrow> iss \<in> set res \<Longrightarrow>
     iss \<in> set issues \<or>
     (\<exists>j. j < length cs \<and> cellIndex iss = i + j \<and> rendered_nonempty h (cs ! j))"
proof (induction cs arbitrary: i issues w)
  case Nil
  then show ?case by simp
next
  case (Cons c cs)
  obtain r1 w1 where step: "analyze_cell h i c w = (r1, w1)"
    by (cases "analyze_cell h i c w")
  show ?case
  proof (cases r1)
    case (Inl e)
    with Cons.prems step show ?thesis by simp
  next
    case (Inr found)
    show ?thesis
    proof (cases found)
      case None
      with Cons.prems step Inr have "scan_cells h (Suc i) cs issues w1 = (Inr res, w')" by simp
      from Cons.IH [OF this Cons.prems(2)]
      consider "iss \<in> set issues"
        | j where "j < length cs" "cellIndex iss = Suc i + j" "rendered_nonempty h (cs ! j)"
        by blast
      then show ?thesis
      proof cases
        case 1
        then show ?thesis by simp
      next
        case 2
        then have "Suc j < length (c # cs) \<and> cellIndex iss = i + Suc j \<and>
                   rendered_nonempty h ((c # cs) ! Suc j)" by simp
        then show ?thesis by blast
      qed
    next
      case (Some new)
      with Cons.prems step Inr
      have rest: "scan_cells h (Suc i) cs (issues @ [new]) w1 = (Inr res, w')" by simp
      from step Inr Some have "analyze_cell h i c w = (Inr (Some new), w1)" by simp
      from analyze_cell_issue [OF this]
      have new: "cellIndex new = i" "rendered_nonempty h c" by simp_all
      from Cons.IH [OF rest Cons.prems(2)]
      consider "iss \<in> set issues" | "iss = new"
        | j where "j < length cs" "cellIndex iss = Suc i + j" "rendered_nonempty h (cs ! j)"
        by auto
      then show ?thesis
      proof cases
        case 1
        then show ?thesis by simp
      next
        case 2
        with new have "0 < length (c # cs) \<and> cellIndex iss = i + 0 \<and>
                       rendered_nonempty h ((c # cs) ! 0)" by simp
        then show ?thesis by blast
      next
        case 3
        then have "Suc j < length (c # cs) \<and> cellIndex iss = i + Suc j \<and>
                   rendered_nonempty h ((c # cs) ! Suc j)" by simp
        then show ?thesis by blast
      qed
    qed
  qed
qed

lemma rendered_nonempty_iff:
  "rendered_nonempty h c \<longleftrightarrow>
     (\<exists>cl m html. c = Some cl \<and> model cl = Some m \<and>
        select_output (cell_type m) (node cl) = Some html \<and>
        trim (html_roundtrip h html) \<noteq> [])"
  by (auto simp: rendered_nonempty_def split: option.splits)

lemma rendered_nonempty_unrecognized:
  "model cl = Some m \<Longrightarrow> cell_type m \<noteq> ''markdown'' \<Longrightarrow> cell_type m \<noteq> ''code'' \<Longrightarrow>
     \<not> rendered_nonempty h (Some cl)"
  by (simp add: rendered_nonempty_def select_output_def)

lemma returned_issues_rendered:
  assumes "iss \<in> set (returned_issues (analyzeCellsAccessibility h panel w))"
  shows "cellIndex iss < length (widgets panel) \<and>
         rendered_nonempty h (widgets panel ! cellIndex iss)"
proof -
  let ?w2 = "appendChild_body (elements_created w)
               (w\<lparr>elements_created := Suc (elements_created w)\<rparr>)"
  obtain r w3 where loop: "scan_cells h 0 (widgets panel) [] ?w2 = (r, w3)"
    by (cases "scan_cells h 0 (widgets panel) [] ?w2")
  then have out: "fst (analyzeCellsAccessibility h panel w) = r"
    by (simp add: analyzeCellsAccessibility_def createElement_def)
  show ?thesis
  proof (cases r)
    case (Inl e)
    with assms out show ?thesis by (simp add: returned_issues_def)
  next
    case (Inr issues)
    with assms out have "iss \<in> set issues" by (simp add: returned_issues_def)
    from scan_cells_issues [OF loop [unfolded Inr] this] show ?thesis by auto
  qed
qed

lemma sample_scan:
  "analyzeCellsAccessibility flagging_host sample_panel sample_world =
     (Inr [sample_issue],
      sample_world\<lparr>elements_created := 1,
        axe_calls := [(\<lparr>innerHTML = ''<p><font color=#eee>pale</font></p>'',
                        in_document = True\<rparr>, axeConfig)]\<rparr>)"
  by (simp add: analyzeCellsAccessibility_def createElement_def appendChild_body_def
        remove_scratch_def analyze_cell_def console_warn_def run_axe_def select_output_def
        sample_panel_def sample_world_def sample_code_cell_def sample_markdown_cell_def
        sample_raw_cell_def flagging_host_def sample_issue_def trim_def is_js_space_def)

subsection \<open>Issues come from cells with output\<close>

text \<open>
  Claim C6. Every issue that a scan returns belongs to a cell of the notebook,
  at the issue's index, that has a model, whose type selects an output element
  that exists, and whose output, as the scratch \<^verbatim>\<open>div\<close> holds it, is not empty
  after trimming. So a cell whose output is empty, blank or absent yields no
  issue.
\<close>

theorem scan_only_nonempty_output:
  assumes "analyzeCellsAccessibility h panel w = (Inr issues, w')" and "iss \<in> set issues"
  shows "cellIndex iss < length (widgets panel) \<and>
         (\<exists>cl m html. widgets panel ! cellIndex iss = Some cl \<and> model cl = Some m \<and>
            select_output (cell_type m) (node cl) = Some html \<and>
            trim (html_roundtrip h html) \<noteq> [])"
proof -
  have "iss \<in> set (returned_issues (analyzeCellsAccessibility h panel w))"
    using assms by (simp add: returned_issues_def)
  from returned_issues_rendered [OF this] show ?thesis
    by (simp add: rendered_nonempty_iff)
qed

theorem scan_only_nonempty_output_witness:
  "fst (analyzeCellsAccessibility flagging_host sample_panel sample_world) = Inr [sample_issue] \<and>
   cellIndex sample_issue < length (widgets sample_panel) \<and>
   (\<exists>cl m html. widgets sample_panel ! cellIndex sample_issue = Some cl \<and> model cl = Some m \<and>
       select_output (cell_type m) (node cl) = Some html \<and>
       trim (html_roundtrip flagging_host html) \<noteq> [])"
proof -
  have mem: "sample_issue \<in> set [sample_issue]" by simp
  from scan_only_nonempty_output [OF sample_scan mem] sample_scan show ?thesis by simp
qed

subsection \<open>Cells of another type\<close>

text \<open>
  Claim C7, as the code has it. A cell with a model whose type is neither
  \<^verbatim>\<open>markdown\<close> nor \<^verbatim>\<open>code\<close> is passed over in silence: the loop body returns
  without an error and without an issue and leaves the world as it was (no
  warning is logged, the oracle is not called), and no issue that the scan
  returns has the index of that cell.
\<close>

theorem unrecognized_type_skipped_silently:
  assumes "k < length (widgets panel)" and "widgets panel ! k = Some cl"
    and "model cl = Some m" and "cell_type m \<noteq> ''markdown''" and "cell_type m \<noteq> ''code''"
  shows "analyze_cell h k (widgets panel ! k) w = (Inr None, w) \<and>
         k \<notin> cellIndex ` set (returned_issues (analyzeCellsAccessibility h panel w0))"
proof -
  have "analyze_cell h k (Some cl) w = (Inr None, w)"
    using assms(3-5) by (simp add: analyze_cell_def select_output_def)
  moreover have "k \<notin> cellIndex ` set (returned_issues (analyzeCellsAccessibility h panel w0))"
  proof
    assume "k \<in> cellIndex ` set (returned_issues (analyzeCellsAccessibility h panel w0))"
    then obtain iss where "iss \<in> set (returned_issues (analyzeCellsAccessibility h panel w0))"
      and "cellIndex iss = k" by auto
    from returned_issues_rendered [OF this(1)] this(2) assms(2)
    have "rendered_nonempty h (Some cl)" by simp
    with rendered_nonempty_unrecognized [OF assms(3-5)] show False by simp
  qed
  ultimately show ?thesis using assms(2) by simp
qed

theorem unrecognized_type_skipped_silently_witness:
  "cell_type \<lparr>cell_type = ''raw'', source = ''plain text''\<rparr> \<noteq> ''markdown'' \<and>
   cell_type \<lparr>cell_type = ''raw'', source = ''plain text''\<rparr> \<noteq> ''code'' \<and>
   analyze_cell flagging_host 2 (widgets sample_panel ! 2) sample_world
     = (Inr None, sample_world) \<and>
   2 \<notin> cellIndex ` set (returned_issues
          (analyzeCellsAccessibility flagging_host sample_panel sample_world))"
proof -
  let ?m = "\<lparr>cell_type = ''raw'', source = ''plain text''\<rparr>"
  have 1: "2 < length (widgets sample_panel)" by (simp add: sample_panel_def)
  have 2: "widgets sample_panel ! 2 = Some sample_raw_cell" by (simp add: sample_panel_def)
  have 3: "model sample_raw_cell = Some ?m" by (simp add: sample_raw_cell_def)
  have 4: "cell_type ?m \<noteq> ''markdown''" by simp
  have 5: "cell_type ?m \<noteq> ''code''" by simp
  from unrecognized_type_skipped_silently
         [OF 1 2 3 4 5, of flagging_host sample_world sample_world] 4 5
  show ?thesis by simp
qed

text \<open>
  Claim C7 as stated fails on a notebook whose only cell is a raw cell: the scan
  returns no issue and the console is as empty after the scan as before.
\<close>

theorem unrecognized_type_no_warning_counterexample:
  "cell_type \<lparr>cell_type = ''raw'', source = ''plain text''\<rparr> \<noteq> ''markdown'' \<and>
   cell_type \<lparr>cell_type = ''raw'', source = ''plain text''\<rparr> \<noteq> ''code'' \<and>
   console sample_world = [] \<and>
   fst (analyzeCellsAccessibility flagging_host \<lparr>widgets = [Some sample_raw_cell]\<rparr>
          sample_world) = Inr [] \<and>
   console (snd (analyzeCellsAccessibility flagging_host \<lparr>widgets = [Some sample_raw_cell]\<rparr>
          sample_world)) = []"
  by (simp add: analyzeCellsAccessibility_def createElement_def appendChild_body_def
        remove_scratch_def analyze_cell_def select_output_def
        sample_world_def sample_raw_cell_def)

subsection \<open>The scratch container\<close>

text \<open>
  Claim C9. A scan creates exactly one scratch container, and when the scan
  ends that container is not attached to the document, whatever the outcome:
  the statement does not depend on whether the scan returned issues or failed
  in the oracle. Apart from it, the containers attached after the scan are
  those attached before.
\<close>

theorem scan_scratch_container:
  "elements_created (snd (analyzeCellsAccessibility h panel w)) = Suc (elements_created w) \<and>
   elements_created w \<notin> set (scratch_attached (snd (analyzeCellsAccessibility h panel w))) \<and>
   scratch_attached (snd (analyzeCellsAccessibility h panel w))
     = removeAll (elements_created w) (scratch_attached w)"
proof -
  let ?w2 = "appendChild_body (elements_created w)
               (w\<lparr>elements_created := Suc (elements_created w)\<rparr>)"
  obtain r w3 where loop: "scan_cells h 0 (widgets panel) [] ?w2 = (r, w3)"
    by (cases "scan_cells h 0 (widgets panel) [] ?w2")
  from scan_cells_frame [OF loop]
  have "elements_created w3 = Suc (elements_created w)"
       "scratch_attached w3 = scratch_attached w @ [elements_created w]"
    by (simp_all add: appendChild_body_def)
  moreover have "analyzeCellsAccessibility h panel w = (r, remove_scratch (elements_created w) w3)"
    using loop by (simp add: analyzeCellsAccessibility_def createElement_def)
  ultimately show ?thesis by (simp add: remove_scratch_def)
qed

theorem scan_scratch_container_witness:
  "fst (analyzeCellsAccessibility failing_host sample_panel sample_world) = Inl OracleError \<and>
   elements_created (snd (analyzeCellsAccessibility failing_host sample_panel sample_world)) = 1 \<and>
   0 \<notin> set (scratch_attached (snd (analyzeCellsAccessibility failing_host sample_panel sample_world)))"
proof -
  have "fst (analyzeCellsAccessibility failing_host sample_panel sample_world) = Inl OracleError"
    by (simp add: analyzeCellsAccessibility_def createElement_def appendChild_body_def
        remove_scratch_def analyze_cell_def console_warn_def run_axe_def select_output_def
        sample_panel_def sample_world_def sample_code_cell_def sample_markdown_cell_def
        sample_raw_cell_def failing_host_def trim_def is_js_space_def)
  moreover have "elements_created sample_world = 0" by (simp add: sample_world_def)
  ultimately show ?thesis
    using scan_scratch_container [of failing_host sample_panel sample_world] by simp
qed


section \<open>Applying a suggestion\<close>

lemma lookup_cell_length: "lookup_cell cells i = Some cl \<Longrightarrow> i < length cells"
  by (simp add: lookup_cell_def split: if_splits)

text \<open>What \<^verbatim>\<open>applySuggestion\<close> does once both guards are passed with a string.\<close>

lemma applySuggestion_ready:
  assumes "currentNotebook wd = Some nb" "suggestion wd = JSString X" "X \<noteq> []"
    and "lookup_cell (widgets (notebooks w nb)) (widget_cellIndex wd) = Some cl"
    and "model cl = Some m"
  shows "applySuggestion h wd w =
     (let cl' = cl\<lparr>model := Some (m\<lparr>source := X\<rparr>), node := on_source_changed h X (node cl)\<rparr>;
          c = \<lparr>innerHTML = html_roundtrip h (node_innerHTML (node cl')), in_document = False\<rparr>;
          w3 = w\<lparr>notebooks := (notebooks w)
                  (nb := (notebooks w nb)\<lparr>widgets :=
                      (widgets (notebooks w nb))[widget_cellIndex wd := Some cl']\<rparr>),
                elements_created := Suc (elements_created w),
                axe_calls := axe_calls w @ [(c, axeConfig)]\<rparr>
      in case axe_run h c axeConfig of
           Inl e \<Rightarrow> (Inl e, wd, remove_scratch (elements_created w) w3)
         | Inr violations \<Rightarrow>
             if violations = []
             then (Inr (), wd\<lparr>isDisposed := True\<rparr>,
                   remove_scratch (elements_created w) (remove_widget_node (node_id wd) w3))
             else (Inr (), wd, remove_scratch (elements_created w) w3))"
  using assms
  by (simp add: applySuggestion_def Let_def createElement_def run_axe_def axeConfig_def
           split: sum.splits)

lemma apply_cell_source:
  assumes "currentNotebook wd = Some nb" "suggestion wd = JSString X" "X \<noteq> []"
    and "lookup_cell (widgets (notebooks w nb)) (widget_cellIndex wd) = Some cl"
    and "model cl = Some m"
  shows "cell_source (snd (snd (applySuggestion h wd w))) nb (widget_cellIndex wd) = Some X"
  using lookup_cell_length [OF assms(4)]
  by (simp add: applySuggestion_ready [OF assms] Let_def cell_source_def lookup_cell_def
        remove_scratch_def remove_widget_node_def split: sum.splits)

lemma apply_axe_calls:
  assumes "currentNotebook wd = Some nb" "suggestion wd = JSString X" "X \<noteq> []"
    and "lookup_cell (widgets (notebooks w nb)) (widget_cellIndex wd) = Some cl"
    and "model cl = Some m"
  shows "axe_calls (snd (snd (applySuggestion h wd w))) =
           axe_calls w @
             [(\<lparr>innerHTML = html_roundtrip h (node_innerHTML (on_source_changed h X (node cl))),
                in_document = False\<rparr>, axeConfig)]"
  by (simp add: applySuggestion_ready [OF assms] Let_def
        remove_scratch_def remove_widget_node_def split: sum.splits)

lemma sample_lookup:
  "lookup_cell (widgets (notebooks sample_world 0)) (Suc 0) = Some sample_markdown_cell"
  by (simp add: lookup_cell_def sample_world_def sample_panel_def)

lemma sample_model:
  "model sample_markdown_cell =
     Some \<lparr>cell_type = ''markdown'', source = ''<font color=#eee>pale</font>''\<rparr>"
  by (simp add: sample_markdown_cell_def)

subsection \<open>Source and revalidation\<close>

text \<open>
  Claim C4. When the widget holds a notebook, its suggestion is a non-empty
  string \<open>X\<close>, and its cell index finds a cell with a model, \<^verbatim>\<open>applySuggestion\<close>
  leaves the source of that cell equal to \<open>X\<close>, and the oracle has been called
  exactly once more: on a scratch container holding the \<^verbatim>\<open>innerHTML\<close> of that
  cell's node, with options equal to the scan's \<open>axeConfig\<close>.
\<close>

theorem apply_sets_source_and_revalidates_once:
  assumes "currentNotebook wd = Some nb" "suggestion wd = JSString X" "X \<noteq> []"
    and "lookup_cell (widgets (notebooks w nb)) (widget_cellIndex wd) = Some cl"
    and "model cl = Some m"
  shows "cell_source (snd (snd (applySuggestion h wd w))) nb (widget_cellIndex wd) = Some X \<and>
         axe_calls (snd (snd (applySuggestion h wd w))) =
           axe_calls w @
             [(\<lparr>innerHTML = html_roundtrip h (node_innerHTML (on_source_changed h X (node cl))),
                in_document = False\<rparr>, axeConfig)]"
  using apply_cell_source [OF assms] apply_axe_calls [OF assms] by simp

theorem apply_sets_source_and_revalidates_once_witness:
  "cell_source (snd (snd (applySuggestion flagging_host sample_widget sample_world))) 0 1
     = Some ''pale'' \<and>
   axe_calls (snd (snd (applySuggestion flagging_host sample_widget sample_world))) =
     [(\<lparr>innerHTML = ''<div class=jp-MarkdownOutput><p><font color=#eee>pale</font></p></div>'',
        in_document = False\<rparr>, axeConfig)]"
proof -
  have 1: "currentNotebook sample_widget = Some 0" by (simp add: sample_widget_def)
  have 2: "suggestion sample_widget = JSString ''pale''" by (simp add: sample_widget_def)
  have 3: "''pale'' \<noteq> []" by simp
  have 4: "lookup_cell (widgets (notebooks sample_world 0)) (widget_cellIndex sample_widget)
             = Some sample_markdown_cell"
    by (simp add: sample_widget_def sample_lookup)
  from apply_sets_source_and_revalidates_once [OF 1 2 3 4 sample_model, of flagging_host]
  show ?thesis
    by (simp add: sample_widget_def flagging_host_def sample_markdown_cell_def sample_world_def)
qed

subsection \<open>After revalidation\<close>

text \<open>
  Claim C5. Under the same conditions, when the oracle answers the
  revalidation with a list of violations: if the list is empty, the widget's
  node is no longer among the panel's issue nodes and the widget is disposed;
  if it is not empty, the panel's issue nodes are unchanged and so is the
  widget, its suggestion included.
\<close>

theorem apply_removes_resolved_unit:
  assumes "currentNotebook wd = Some nb" "suggestion wd = JSString X" "X \<noteq> []"
    and "lookup_cell (widgets (notebooks w nb)) (widget_cellIndex wd) = Some cl"
    and "model cl = Some m"
    and "axe_run h \<lparr>innerHTML = html_roundtrip h
                       (node_innerHTML (on_source_changed h X (node cl))),
                    in_document = False\<rparr> axeConfig = Inr violations"
    and "applySuggestion h wd w = (r, wd', w')"
  shows "r = Inr () \<and>
         (if violations = []
          then node_id wd \<notin> set (panel_issue_nodes w') \<and> isDisposed wd'
          else panel_issue_nodes w' = panel_issue_nodes w \<and> wd' = wd)"
  using assms(6,7)
  by (auto simp add: applySuggestion_ready [OF assms(1-5)] Let_def
          remove_scratch_def remove_widget_node_def)

theorem apply_removes_resolved_unit_witness:
  "(fst (applySuggestion passing_host sample_widget sample_world) = Inr () \<and>
    node_id sample_widget \<notin> set (panel_issue_nodes
        (snd (snd (applySuggestion passing_host sample_widget sample_world)))) \<and>
    isDisposed (fst (snd (applySuggestion passing_host sample_widget sample_world)))) \<and>
   (fst (applySuggestion flagging_host sample_widget sample_world) = Inr () \<and>
    panel_issue_nodes (snd (snd (applySuggestion flagging_host sample_widget sample_world)))
      = panel_issue_nodes sample_world \<and>
    fst (snd (applySuggestion flagging_host sample_widget sample_world)) = sample_widget)"
proof -
  have 1: "currentNotebook sample_widget = Some 0" by (simp add: sample_widget_def)
  have 2: "suggestion sample_widget = JSString ''pale''" by (simp add: sample_widget_def)
  have 3: "''pale'' \<noteq> []" by simp
  have 4: "lookup_cell (widgets (notebooks sample_world 0)) (widget_cellIndex sample_widget)
             = Some sample_markdown_cell"
    by (simp add: sample_widget_def sample_lookup)
  have p: "axe_run passing_host
             \<lparr>innerHTML = html_roundtrip passing_host
                 (node_innerHTML (on_source_changed passing_host ''pale''
                    (node sample_markdown_cell))),
              in_document = False\<rparr> axeConfig = Inr []"
    by (simp add: passing_host_def)
  have f: "axe_run flagging_host
             \<lparr>innerHTML = html_roundtrip flagging_host
                 (node_innerHTML (on_source_changed flagging_host ''pale''
                    (node sample_markdown_cell))),
              in_document = False\<rparr> axeConfig = Inr [contrast_violation]"
    by (simp add: flagging_host_def)
  have ep: "applySuggestion passing_host sample_widget sample_world =
      (fst (applySuggestion passing_host sample_widget sample_world),
       fst (snd (applySuggestion passing_host sample_widget sample_world)),
       snd (snd (applySuggestion passing_host sample_widget sample_world)))" by simp
  have ef: "applySuggestion flagging_host sample_widget sample_world =
      (fst (applySuggestion flagging_host sample_widget sample_world),
       fst (snd (applySuggestion flagging_host sample_widget sample_world)),
       snd (snd (applySuggestion flagging_host sample_widget sample_world)))" by simp
  from apply_removes_resolved_unit [OF 1 2 3 4 sample_model p ep]
       apply_removes_resolved_unit [OF 1 2 3 4 sample_model f ef]
  show ?thesis by simp
qed

subsection \<open>The guards\<close>

text \<open>
  Claim C10. When the widget holds no notebook, or its suggestion is the empty
  string, or its cell index finds no cell, or finds a cell without a model,
  \<^verbatim>\<open>applySuggestion\<close> resolves without an error and leaves the widget and the
  world as they were: no source is modified and the oracle is not called.
\<close>

theorem apply_guard:
  assumes "currentNotebook wd = None \<or> suggestion wd = JSString [] \<or>
           (\<exists>nb. currentNotebook wd = Some nb \<and>
              (lookup_cell (widgets (notebooks w nb)) (widget_cellIndex wd) = None \<or>
               (\<exists>cl. lookup_cell (widgets (notebooks w nb)) (widget_cellIndex wd) = Some cl \<and>
                     model cl = None)))"
  shows "applySuggestion h wd w = (Inr (), wd, w)"
  using assms
  by (auto simp: applySuggestion_def split: option.splits)

theorem apply_guard_witness:
  "applySuggestion flagging_host (sample_widget\<lparr>currentNotebook := None\<rparr>) sample_world
     = (Inr (), sample_widget\<lparr>currentNotebook := None\<rparr>, sample_world) \<and>
   applySuggestion flagging_host (sample_widget\<lparr>suggestion := JSString []\<rparr>) sample_world
     = (Inr (), sample_widget\<lparr>suggestion := JSString []\<rparr>, sample_world) \<and>
   applySuggestion flagging_host (sample_widget\<lparr>widget_cellIndex := 3\<rparr>) sample_world
     = (Inr (), sample_widget\<lparr>widget_cellIndex := 3\<rparr>, sample_world)"
proof -
  let ?a = "sample_widget\<lparr>currentNotebook := None\<rparr>"
  let ?b = "sample_widget\<lparr>suggestion := JSString []\<rparr>"
  let ?c = "sample_widget\<lparr>widget_cellIndex := 3\<rparr>"
  have 1: "currentNotebook ?a = None \<or> suggestion ?a = JSString [] \<or>
           (\<exists>nb. currentNotebook ?a = Some nb \<and>
              (lookup_cell (widgets (notebooks sample_world nb)) (widget_cellIndex ?a) = None \<or>
               (\<exists>cl. lookup_cell (widgets (notebooks sample_world nb)) (widget_cellIndex ?a)
                        = Some cl \<and> model cl = None)))"
    by simp
  have 2: "currentNotebook ?b = None \<or> suggestion ?b = JSString [] \<or>
           (\<exists>nb. currentNotebook ?b = Some nb \<and>
              (lookup_cell (widgets (notebooks sample_world nb)) (widget_cellIndex ?b) = None \<or>
               (\<exists>cl. lookup_cell (widgets (notebooks sample_world nb)) (widget_cellIndex ?b)
                        = Some cl \<and> model cl = None)))"
    by simp
  have "lookup_cell (widgets (notebooks sample_world 0)) 3 = None"
    by (simp add: lookup_cell_def sample_world_def sample_panel_def)
  then have 3: "currentNotebook ?c = None \<or> suggestion ?c = JSString [] \<or>
           (\<exists>nb. currentNotebook ?c = Some nb \<and>
              (lookup_cell (widgets (notebooks sample_world nb)) (widget_cellIndex ?c) = None \<or>
               (\<exists>cl. lookup_cell (widgets (notebooks sample_world nb)) (widget_cellIndex ?c)
                        = Some cl \<and> model cl = None)))"
    by (simp add: sample_widget_def)
  from apply_guard [OF 1] apply_guard [OF 2] apply_guard [OF 3] show ?thesis by simp
qed

subsection \<open>A failed request and the Apply action\<close>

text \<open>
  After a backend failure (the transport fails, answers with a non-success
  status, or the inner payload cannot be read), the suggestion that the widget
  stores is a placeholder text that is not empty, and a later
  \<^verbatim>\<open>applySuggestion\<close> on that widget, when its notebook is present and its cell
  has a model, passes the guard of line 242 and sets the source of the cell to
  the placeholder.
\<close>

lemma failure_placeholder_applied:
  assumes "fetch n (ollama_request (formatPrompt issue)) = Inl err \<or>
     (\<exists>resp. fetch n (ollama_request (formatPrompt issue)) = Inr resp \<and> \<not> ok resp) \<or>
     (\<exists>resp body obj err'. fetch n (ollama_request (formatPrompt issue)) = Inr resp \<and>
        ok resp \<and> response_text resp = Inr body \<and> JSON_parse n body = Some obj \<and>
        parse_suggestion (JSON_parse n) obj = Inl err')"
    and "currentNotebook wd = Some nb"
    and "lookup_cell (widgets (notebooks w nb)) (widget_cellIndex wd) = Some cl"
    and "model cl = Some m"
  shows "\<exists>placeholder.
           (placeholder = ''Error analyzing accessibility issues'' \<or>
            placeholder = ''Invalid response format'') \<and>
           suggestion (receive_suggestion n issue wd) = JSString placeholder \<and>
           cell_source (snd (snd (applySuggestion h (receive_suggestion n issue wd) w)))
             nb (widget_cellIndex wd) = Some placeholder"
proof -
  from failure_placeholder [OF assms(1)]
  obtain p where
    p: "p = ''Error analyzing accessibility issues'' \<or> p = ''Invalid response format''" and
    g: "getFixSuggestions n (formatPrompt issue) = Inr (JSString p, JSString [])"
    by blast
  let ?wd = "receive_suggestion n issue wd"
  have wd: "?wd = wd\<lparr>suggestion := JSString p\<rparr>"
    using g by (simp add: receive_suggestion_def)
  have 1: "currentNotebook ?wd = Some nb" using assms(2) wd by simp
  have 2: "suggestion ?wd = JSString p" using wd by simp
  have 3: "p \<noteq> []" using p by auto
  have 4: "lookup_cell (widgets (notebooks w nb)) (widget_cellIndex ?wd) = Some cl"
    using assms(3) wd by simp
  have "cell_source (snd (snd (applySuggestion h ?wd w))) nb (widget_cellIndex ?wd) = Some p"
    by (rule apply_cell_source [OF 1 2 3 4 assms(4)])
  then have "cell_source (snd (snd (applySuggestion h ?wd w))) nb (widget_cellIndex wd) = Some p"
    using wd by simp
  with p 2 show ?thesis by blast
qed

text \<open>
  Claim C2, that after a backend failure the Apply action leaves the cell's
  source alone, does not hold of the code. The guard of line 242 makes
  \<^verbatim>\<open>applySuggestion\<close> return at once while the widget has no suggestion; the
  placeholder of a failed request is not empty and passes it. When the endpoint
  is unreachable, the widget for the markdown cell stores
  \<^verbatim>\<open>Error analyzing accessibility issues\<close>, and applying it replaces the source
  of that cell by this text.
\<close>

theorem failed_suggestion_overwrites_cell:
  "fetch unreachable_net (ollama_request (formatPrompt sample_issue)) = Inl NetworkError \<and>
   suggestion (receive_suggestion unreachable_net sample_issue
                 (new_CellIssueWidget 0 sample_issue 0))
     = JSString ''Error analyzing accessibility issues'' \<and>
   cell_source sample_world 0 1 = Some ''<font color=#eee>pale</font>'' \<and>
   cell_source (snd (snd (applySuggestion flagging_host
                  (receive_suggestion unreachable_net sample_issue
                     (new_CellIssueWidget 0 sample_issue 0)) sample_world))) 0 1
     = Some ''Error analyzing accessibility issues''"
proof -
  have g: "getFixSuggestions unreachable_net (formatPrompt sample_issue) =
             Inr (JSString ''Error analyzing accessibility issues'', JSString [])"
    by (simp add: getFixSuggestions_def request_suggestion_def unreachable_net_def)
  let ?wd = "receive_suggestion unreachable_net sample_issue
               (new_CellIssueWidget 0 sample_issue 0)"
  have wd: "?wd = \<lparr>node_id = 0, currentNotebook = Some 0, widget_cellIndex = 1,
                    suggestion = JSString ''Error analyzing accessibility issues'',
                    isDisposed = False\<rparr>"
    using g by (simp add: receive_suggestion_def new_CellIssueWidget_def sample_issue_def)
  have before: "cell_source sample_world 0 1 = Some ''<font color=#eee>pale</font>''"
    by (simp add: cell_source_def sample_lookup sample_model)
  have "cell_source (snd (snd (applySuggestion flagging_host ?wd sample_world)))
          0 (widget_cellIndex ?wd) = Some ''Error analyzing accessibility issues''"
    by (rule apply_cell_source [where cl = sample_markdown_cell])
       (simp_all add: wd sample_lookup sample_model)
  moreover have "fetch unreachable_net (ollama_request (formatPrompt sample_issue))
                   = Inl NetworkError"
    by (simp add: unreachable_net_def)
  ultimately show ?thesis using wd before by simp
qed


end
